theory Spec2Isabelle
  imports Complex_Main "HOL-Library.Multiset"
begin

section \<open>The task upcRhoAnalysis (PWGUD/Tasks/upcRhoAnalysis.cxx)\<close>

text \<open>
  The embedding follows the member functions of the struct \<open>upcRhoAnalysis\<close>.
  Values of the C++ types \<open>double\<close> and \<open>float\<close> are finite real numbers;
  infinities and NaN are not represented. Comparisons, negation and the absolute value
  are exact on them. The sums, products and square roots of \<open>tracksPassPiPID\<close> and of
  the four-vector class are rounded to the binary64 format, operation by operation.
  The transcendental functions (the power of the DCA bound, the inverse tangent, the
  inverse hyperbolic tangent) and the arithmetic around them are taken exact. Where the
  source divides by zero or leaves the domain of a library function, the model writes
  out what the comparison of the source yields there. Integer columns are \<open>int\<close>.
\<close>

subsection \<open>Configuration and table rows\<close>

text \<open>
  The configurables of the task that the cut functions read (lines 37 to 48). The
  configurable \<open>gapSide\<close> is the field \<open>gapSideCfg\<close>, since the collision row has an
  accessor of the same name.
\<close>

record config =
  specifyGapSide :: bool
  gapSideCfg :: int
  requireTof :: bool
  collisionsPosZMaxCut :: real
  ZNcommonEnergyCut :: real
  ZNtimeCut :: real
  tracksTpcNSigmaPiCut :: real
  tracksDcaMaxCut :: real

definition PcEtaCut :: real where
  "PcEtaCut = 0.9"

text \<open>The values the source gives the configurables when nothing overrides them.\<close>

definition defaultConfig :: config where
  "defaultConfig =
     \<lparr> specifyGapSide = True, gapSideCfg = 2, requireTof = False,
       collisionsPosZMaxCut = 10, ZNcommonEnergyCut = 0, ZNtimeCut = 2,
       tracksTpcNSigmaPiCut = 3, tracksDcaMaxCut = 1 \<rparr>"

text \<open>The columns of a collision row (\<open>FullUDSgCollision\<close>) that the task reads in its cuts.\<close>

record collision =
  posZ :: real
  gapSide :: int
  energyCommonZNA :: real
  timeZNA :: real
  energyCommonZNC :: real
  timeZNC :: real

subsection \<open>Collision cuts\<close>

definition collisionPassesCuts :: "config \<Rightarrow> collision \<Rightarrow> bool" where
  "collisionPassesCuts cfg c =
     (if \<bar>posZ c\<bar> > collisionsPosZMaxCut cfg then False
      else if specifyGapSide cfg \<and> gapSide c \<noteq> gapSideCfg cfg then False
      else True)"

subsection \<open>Event tagging from the zero-degree calorimeters\<close>

text \<open>
  The four flags of lines 474 to 483 of \<open>processReco\<close>; the source writes \<open>On\<close> for 0n.
  Each flag starts false and is set by an \<open>if\<close> of its own.
\<close>

record zdcTags =
  XnXn :: bool
  OnOn :: bool
  XnOn :: bool
  OnXn :: bool

definition eventTagging :: "config \<Rightarrow> collision \<Rightarrow> zdcTags" where
  "eventTagging cfg c =
     \<lparr> XnXn = (energyCommonZNA c > ZNcommonEnergyCut cfg \<and> \<bar>timeZNA c\<bar> < ZNtimeCut cfg \<and>
               energyCommonZNC c > ZNcommonEnergyCut cfg \<and> \<bar>timeZNC c\<bar> < ZNtimeCut cfg),
       OnOn = (energyCommonZNA c < ZNcommonEnergyCut cfg \<and>
               energyCommonZNC c < ZNcommonEnergyCut cfg),
       XnOn = (energyCommonZNA c > ZNcommonEnergyCut cfg \<and> \<bar>timeZNA c\<bar> < ZNtimeCut cfg \<and>
               energyCommonZNC c < ZNcommonEnergyCut cfg),
       OnXn = (energyCommonZNA c < ZNcommonEnergyCut cfg \<and>
               energyCommonZNC c > ZNcommonEnergyCut cfg \<and> \<bar>timeZNC c\<bar> < ZNtimeCut cfg) \<rparr>"

text \<open>The number of flags that are set.\<close>

definition tagCount :: "zdcTags \<Rightarrow> nat" where
  "tagCount t = length (filter id [OnOn t, XnOn t, OnXn t, XnXn t])"

text \<open>A collision with the given calorimeter readings, inside the vertex and gap-side cuts.\<close>

definition zdcCollision :: "real \<Rightarrow> real \<Rightarrow> real \<Rightarrow> real \<Rightarrow> collision" where
  "zdcCollision eA tA eC tC =
     \<lparr> posZ = 0, gapSide = 2, energyCommonZNA = eA, timeZNA = tA,
       energyCommonZNC = eC, timeZNC = tC \<rparr>"

subsection \<open>Track cuts\<close>

text \<open>
  The columns of a track row (\<open>FullUDTracks\<close>) that the task reads in its cuts. The
  accessor \<open>pt\<close> is a column of the table, so it is a field here too.
\<close>

record track =
  isPVContributor :: bool
  hasITS :: bool
  hasTPC :: bool
  hasTOF :: bool
  dcaZ :: real
  dcaXY :: real
  pt :: real
  px :: real
  py :: real
  pz :: real
  tpcNSigmaPi :: real
  sign :: int

text \<open>
  The histogram registry, restricted to the histogram \<open>QC/tracks/hSelectionCounter\<close>:
  the fills of that histogram in the order they happen, each with its bin value and
  its weight. The other histograms are written and never read by the task, and no
  cut depends on them; their fills are left out.
\<close>

type_synonym registry = "(nat \<times> nat) list"

definition fillW :: "nat \<Rightarrow> nat \<Rightarrow> registry \<Rightarrow> registry" where
  "fillW b w reg = reg @ [(b, w)]"

definition fill :: "nat \<Rightarrow> registry \<Rightarrow> registry" where
  "fill b reg = fillW b 1 reg"

text \<open>
  Modelled from the spec: the helpers \<open>momentum\<close> and \<open>eta\<close> of
  PWGUD/Core/UPCTauCentralBarrelHelperRL.h are not under src/. The pseudorapidity is
  computed from the full 3-momentum as the inverse hyperbolic tangent of the
  longitudinal fraction; outside the open interval between -1 and 1, and for a zero
  momentum, the helper answers -999.
\<close>

definition momentum :: "real \<Rightarrow> real \<Rightarrow> real \<Rightarrow> real" where
  "momentum x y z = sqrt (x * x + y * y + z * z)"

definition eta :: "real \<Rightarrow> real \<Rightarrow> real \<Rightarrow> real" where
  "eta x y z =
     (let mom = momentum x y z;
          arg = (if mom \<noteq> 0 then z / mom else - 2)
      in if - 1 < arg \<and> arg < 1 then artanh arg else - 999)"

text \<open>
  The test of line 370. \<open>std::pow(pt, 1.01)\<close> is \<open>pt powr 1.01\<close> for a positive \<open>pt\<close>.
  For \<open>pt = 0\<close> the source divides by zero and the bound is infinite, and for a
  negative \<open>pt\<close> the power is not a number: in both cases the comparison of \<open>dcaXY\<close>
  with the bound is false in the source, which the guard \<open>0 < pt\<close> writes out.
\<close>

definition dcaCutFails :: "config \<Rightarrow> track \<Rightarrow> bool" where
  "dcaCutFails cfg t =
     (\<bar>dcaZ t\<bar> > tracksDcaMaxCut cfg \<or>
      (0 < pt t \<and> \<bar>dcaXY t\<bar> > 0.0182 + 0.0350 / (pt t powr 1.01)))"

text \<open>
  \<open>trackPassesCuts\<close> returns its verdict and the registry after its fills.
\<close>

definition trackPassesCuts :: "config \<Rightarrow> track \<Rightarrow> registry \<Rightarrow> bool \<times> registry" where
  "trackPassesCuts cfg t reg0 =
     (if \<not> isPVContributor t then (False, reg0)
      else let reg1 = fill 1 reg0 in
      if \<not> hasITS t \<or> \<not> hasTPC t then (False, reg1)
      else let reg2 = fill 2 reg1 in
      if requireTof cfg \<and> \<not> hasTOF t then (False, reg2)
      else let reg3 = fill 3 reg2 in
      if dcaCutFails cfg t then (False, reg3)
      else let reg4 = fill 4 reg3 in
      if \<bar>eta (px t) (py t) (pz t)\<bar> > PcEtaCut then (False, reg4)
      else (True, fill 5 reg4))"

text \<open>
  The five stages as the specification lists them, in its order, each as the condition
  under which the stage is passed; and the number of stages passed before the first
  failure.
\<close>

definition stageResults :: "config \<Rightarrow> track \<Rightarrow> bool list" where
  "stageResults cfg t =
     [isPVContributor t,
      hasITS t \<and> hasTPC t,
      (if requireTof cfg then hasTOF t else True),
      \<not> dcaCutFails cfg t,
      \<not> \<bar>eta (px t) (py t) (pz t)\<bar> > PcEtaCut]"

definition stagesPassed :: "config \<Rightarrow> track \<Rightarrow> nat" where
  "stagesPassed cfg t = length (takeWhile id (stageResults cfg t))"

text \<open>The fills of the bins 1 to n, in this order, each of weight 1.\<close>

definition stageFills :: "nat \<Rightarrow> registry" where
  "stageFills n = map (\<lambda>b. (b, 1)) [1..<Suc n]"

subsection \<open>Arithmetic on doubles\<close>

text \<open>
  Rounding to the binary64 format, to the nearest value with ties to the even
  significand: a nonzero \<open>x\<close> in the binade of \<open>2 ^ k\<close> is rounded to a multiple of
  \<open>2 ^ (k - 52)\<close>, and of \<open>2 ^ (- 1074)\<close> in the subnormal range. The exponent has no upper
  end here: beyond the largest double the source has an infinity, which compares with
  the finite values as the large value of the model does.
\<close>

definition roundHalfEven :: "real \<Rightarrow> int" where
  "roundHalfEven q =
     (let f = \<lfloor>q\<rfloor>; d = q - of_int f
      in if d < 1 / 2 then f
         else if 1 / 2 < d then f + 1
         else if even f then f else f + 1)"

definition ulpExponent :: "real \<Rightarrow> int" where
  "ulpExponent x = max (\<lfloor>log 2 \<bar>x\<bar>\<rfloor> - 52) (- 1074)"

definition rnd64 :: "real \<Rightarrow> real" where
  "rnd64 x =
     (if x = 0 then 0
      else let e = ulpExponent x
           in of_int (roundHalfEven (x / 2 powr e)) * 2 powr e)"

text \<open>
  The operations of the source on doubles. \<open>std::pow(x, 2)\<close> is the rounded square, and
  \<open>std::sqrt\<close> the rounded square root, of an argument that is not negative.
\<close>

definition dadd :: "real \<Rightarrow> real \<Rightarrow> real" where
  "dadd a b = rnd64 (a + b)"

definition dsub :: "real \<Rightarrow> real \<Rightarrow> real" where
  "dsub a b = rnd64 (a - b)"

definition dmul :: "real \<Rightarrow> real \<Rightarrow> real" where
  "dmul a b = rnd64 (a * b)"

definition dsqrt :: "real \<Rightarrow> real" where
  "dsqrt a = rnd64 (sqrt a)"

definition stdPow2 :: "real \<Rightarrow> real" where
  "stdPow2 a = rnd64 (a * a)"

subsection \<open>The joint pion identification cut\<close>

text \<open>
  The loop of \<open>tracksPassPiPID\<close> adds the squares to the double \<open>radius\<close>, which starts
  at 0; the result is compared with the square of the cut.
\<close>

definition pidRadius :: "track list \<Rightarrow> real" where
  "pidRadius cutTracks =
     foldl (\<lambda>radius t. dadd radius (stdPow2 (tpcNSigmaPi t))) 0 cutTracks"

definition tracksPassPiPID :: "config \<Rightarrow> track list \<Rightarrow> bool" where
  "tracksPassPiPID cfg cutTracks =
     (pidRadius cutTracks < stdPow2 (tracksTpcNSigmaPiCut cfg))"

definition tracksTotalCharge :: "track list \<Rightarrow> int" where
  "tracksTotalCharge cutTracks = foldl (\<lambda>charge t. charge + sign t) 0 cutTracks"

text \<open>A track that passes every track cut, with the given pion response and charge.\<close>

definition pidTrack :: "real \<Rightarrow> int \<Rightarrow> track" where
  "pidTrack ns q =
     \<lparr> isPVContributor = True, hasITS = True, hasTPC = True, hasTOF = True,
       dcaZ = 0, dcaXY = 0, pt = 1, px = 1, py = 0, pz = 0,
       tpcNSigmaPi = ns, sign = q \<rparr>"

subsection \<open>Four-vectors\<close>

text \<open>
  Modelled from the spec: the class \<open>ROOT::Math::PxPyPzMVector\<close> of Math/Vector4D.h is
  not under src/. A four-vector stores the three momentum components and the mass; a
  negative stored mass stands for a negative squared mass. The energy is derived from
  them, never negative. Sum and difference are taken on the components and the
  energies, and the mass stored for the result is the Lorentz-invariant mass of these
  four numbers. A vector built without arguments has four zeros. Every sum, product
  and square root is an operation on doubles.
\<close>

record PxPyPzMVector =
  fX :: real
  fY :: real
  fZ :: real
  fM :: real

definition vecP2 :: "PxPyPzMVector \<Rightarrow> real" where
  "vecP2 v = dadd (dadd (dmul (fX v) (fX v)) (dmul (fY v) (fY v))) (dmul (fZ v) (fZ v))"

definition vecM2 :: "PxPyPzMVector \<Rightarrow> real" where
  "vecM2 v = (if fM v \<ge> 0 then dmul (fM v) (fM v) else - dmul (fM v) (fM v))"

definition vecE2 :: "PxPyPzMVector \<Rightarrow> real" where
  "vecE2 v = (let e2 = dadd (vecP2 v) (vecM2 v) in if e2 > 0 then e2 else 0)"

definition vecE :: "PxPyPzMVector \<Rightarrow> real" where
  "vecE v = dsqrt (vecE2 v)"

definition Pt :: "PxPyPzMVector \<Rightarrow> real" where
  "Pt v = dsqrt (dadd (dmul (fX v) (fX v)) (dmul (fY v) (fY v)))"

definition SetPxPyPzE :: "real \<Rightarrow> real \<Rightarrow> real \<Rightarrow> real \<Rightarrow> PxPyPzMVector" where
  "SetPxPyPzE x y z e =
     (let mm = dsub (dsub (dsub (dmul e e) (dmul x x)) (dmul y y)) (dmul z z)
      in \<lparr> fX = x, fY = y, fZ = z,
           fM = (if mm \<ge> 0 then dsqrt mm else - dsqrt (- mm)) \<rparr>)"

definition vecPlus :: "PxPyPzMVector \<Rightarrow> PxPyPzMVector \<Rightarrow> PxPyPzMVector" where
  "vecPlus p q =
     SetPxPyPzE (dadd (fX p) (fX q)) (dadd (fY p) (fY q)) (dadd (fZ p) (fZ q))
       (dadd (vecE p) (vecE q))"

definition vecMinus :: "PxPyPzMVector \<Rightarrow> PxPyPzMVector \<Rightarrow> PxPyPzMVector" where
  "vecMinus p q =
     SetPxPyPzE (dsub (fX p) (fX q)) (dsub (fY p) (fY q)) (dsub (fZ p) (fZ q))
       (dsub (vecE p) (vecE q))"

definition vecZero :: PxPyPzMVector where
  "vecZero = \<lparr> fX = 0, fY = 0, fZ = 0, fM = 0 \<rparr>"

text \<open>
  Modelled from the spec: \<open>std::atan2\<close> and the accessor \<open>Phi\<close> of the vector class are
  not under src/. The azimuthal angle is the angle of the transverse components, a
  bounded angle between \<open>-pi\<close> and \<open>pi\<close>, and 0 for a vector without transverse part.
\<close>

definition atan2 :: "real \<Rightarrow> real \<Rightarrow> real" where
  "atan2 y x =
     (if 0 < x then arctan (y / x)
      else if x < 0 then (if 0 \<le> y then arctan (y / x) + pi else arctan (y / x) - pi)
      else if 0 < y then pi / 2
      else if y < 0 then - (pi / 2)
      else 0)"

definition Phi :: "PxPyPzMVector \<Rightarrow> real" where
  "Phi v = (if fX v = 0 \<and> fY v = 0 then 0 else atan2 (fY v) (fX v))"

text \<open>
  Modelled from the spec: the constant \<open>MassPionCharged\<close> of
  CommonConstants/PhysicsConstants.h is not under src/; it is the mass of the charged
  pion in GeV. No statement below depends on its value.
\<close>

definition MassPionCharged :: real where
  "MassPionCharged = 0.13957039"

subsection \<open>System reconstruction and decay angles\<close>

text \<open>The loop of \<open>reconstructSystem\<close> adds each vector to \<open>system\<close>, built without arguments.\<close>

definition reconstructSystem :: "PxPyPzMVector list \<Rightarrow> PxPyPzMVector" where
  "reconstructSystem cutTracks4Vecs = foldl vecPlus vecZero cutTracks4Vecs"

text \<open>
  The additions that accumulate the list \<open>xs\<close> onto \<open>acc\<close> are all exact: no sum is
  changed by the rounding.
\<close>

fun exactFold :: "real \<Rightarrow> real list \<Rightarrow> bool" where
  "exactFold acc [] = True"
| "exactFold acc (x # xs) = (rnd64 (acc + x) = acc + x \<and> exactFold (acc + x) xs)"

definition deltaPhi :: "PxPyPzMVector \<Rightarrow> PxPyPzMVector \<Rightarrow> real" where
  "deltaPhi p1 p2 =
     (let dPhi = Phi p1 - Phi p2
      in if dPhi > pi then dPhi - 2 * pi
         else if dPhi < - pi then dPhi + 2 * pi
         else dPhi)"

text \<open>
  \<open>getPhiRandom\<close> shuffles the indices 0 and 1 with an engine seeded by the clock. The
  outcome of the shuffle is the argument \<open>swapped\<close>: the order of the indices is either
  kept or exchanged. Reading an index beyond the vector is the value \<open>None\<close>.
\<close>

fun getPhiRandom :: "bool \<Rightarrow> PxPyPzMVector list \<Rightarrow> real option" where
  "getPhiRandom swapped (v0 # v1 # vs) =
     (let pOne = (if swapped then v1 else v0);
          pTwo = (if swapped then v0 else v1);
          pPlus = vecPlus pOne pTwo;
          pMinus = vecMinus pOne pTwo
      in Some (deltaPhi pPlus pMinus))"
| "getPhiRandom swapped vs = None"

text \<open>
  \<open>getPhiCharge\<close> reads the sign of the first track only. Reading an index beyond a
  vector is the value \<open>None\<close>.
\<close>

fun getPhiCharge :: "track list \<Rightarrow> PxPyPzMVector list \<Rightarrow> real option" where
  "getPhiCharge (t0 # ts) (v0 # v1 # vs) =
     (let pOne = (if sign t0 > 0 then v0 else v1);
          pTwo = (if sign t0 > 0 then v1 else v0);
          pPlus = vecPlus pOne pTwo;
          pMinus = vecMinus pOne pTwo
      in Some (deltaPhi pPlus pMinus))"
| "getPhiCharge ts vs = None"

subsection \<open>The event processing up to the reconstructed system\<close>

text \<open>
  The loop over the tracks of \<open>processReco\<close> (lines 488 to 508): every track fills
  bin 0 of the selection counter; a track that passes the cuts is appended to
  \<open>cutTracks\<close>, and its four-vector with the pion mass to \<open>cutTracks4Vecs\<close>.
\<close>

definition track4Vec :: "track \<Rightarrow> PxPyPzMVector" where
  "track4Vec t = \<lparr> fX = px t, fY = py t, fZ = pz t, fM = MassPionCharged \<rparr>"

fun trackLoop ::
  "config \<Rightarrow> track list \<Rightarrow> track list \<times> PxPyPzMVector list \<times> registry
     \<Rightarrow> track list \<times> PxPyPzMVector list \<times> registry" where
  "trackLoop cfg [] acc = acc"
| "trackLoop cfg (t # ts) (cutTracks, cutTracks4Vecs, reg) =
     (let (ok, reg1) = trackPassesCuts cfg t (fill 0 reg)
      in if \<not> ok then trackLoop cfg ts (cutTracks, cutTracks4Vecs, reg1)
         else trackLoop cfg ts (cutTracks @ [t], cutTracks4Vecs @ [track4Vec t], reg1))"

text \<open>
  What \<open>processReco\<close> has computed when it reaches line 527, or the early return it
  took. The histogram fills that follow line 527 only write the values below into
  histograms chosen by \<open>nTracks\<close>, \<open>totalCharge\<close> and the tags; they are left out.
\<close>

record summary =
  tags :: zdcTags
  cutTracksOf :: "track list"
  system :: PxPyPzMVector
  totalCharge :: int
  nTracks :: nat

datatype outcome = CollisionRejected | PidRejected | Reconstructed summary

definition processReco :: "config \<Rightarrow> collision \<Rightarrow> track list \<Rightarrow> registry \<Rightarrow> outcome \<times> registry" where
  "processReco cfg c tracks reg =
     (if \<not> collisionPassesCuts cfg c then (CollisionRejected, reg)
      else
        let tg = eventTagging cfg c;
            (cutTracks, cutTracks4Vecs, reg1) = trackLoop cfg tracks ([], [], reg)
        in if \<not> tracksPassPiPID cfg cutTracks then (PidRejected, reg1)
           else
             (Reconstructed
                \<lparr> tags = tg, cutTracksOf = cutTracks,
                  system = reconstructSystem cutTracks4Vecs,
                  totalCharge = tracksTotalCharge cutTracks,
                  nTracks = length cutTracks \<rparr>,
              fillW 6 2 reg1))"

text \<open>A four-vector with the pion mass, and a track with the given momentum and charge.\<close>

definition pion4Vec :: "real \<Rightarrow> real \<Rightarrow> real \<Rightarrow> PxPyPzMVector" where
  "pion4Vec x y z = \<lparr> fX = x, fY = y, fZ = z, fM = MassPionCharged \<rparr>"

definition kinTrack :: "real \<Rightarrow> real \<Rightarrow> real \<Rightarrow> int \<Rightarrow> track" where
  "kinTrack x y z q =
     \<lparr> isPVContributor = True, hasITS = True, hasTPC = True, hasTOF = True,
       dcaZ = 0, dcaXY = 0, pt = sqrt (x * x + y * y), px = x, py = y, pz = z,
       tpcNSigmaPi = 0, sign = q \<rparr>"

section \<open>Rounding to doubles\<close>

lemma rnd64_nz:
  "x \<noteq> 0 \<Longrightarrow>
     rnd64 x = of_int (roundHalfEven (x / 2 powr (real_of_int (ulpExponent x))))
                 * 2 powr (real_of_int (ulpExponent x))"
  by (simp add: rnd64_def Let_def)

lemma roundHalfEven_of_int: "roundHalfEven (of_int n) = n"
  by (simp add: roundHalfEven_def)

lemma roundHalfEven_bounds: "\<lfloor>q\<rfloor> \<le> roundHalfEven q \<and> roundHalfEven q \<le> \<lfloor>q\<rfloor> + 1"
  by (simp add: roundHalfEven_def Let_def)

lemma roundHalfEven_mono:
  assumes "q \<le> q'"
  shows "roundHalfEven q \<le> roundHalfEven q'"
proof (cases "\<lfloor>q\<rfloor> = \<lfloor>q'\<rfloor>")
  case True
  then show ?thesis using assms by (auto simp: roundHalfEven_def Let_def)
next
  case False
  then have "\<lfloor>q\<rfloor> < \<lfloor>q'\<rfloor>" using floor_mono[OF assms] by linarith
  then show ?thesis
    using roundHalfEven_bounds[of q] roundHalfEven_bounds[of q'] by linarith
qed

lemma two_powr_int: "0 \<le> n \<Longrightarrow> 2 powr (real_of_int n) = of_int (2 ^ nat n)"
  by (simp add: powr_real_of_int)

lemma binade:
  assumes "x \<noteq> 0"
  shows "2 powr \<lfloor>log 2 \<bar>x\<bar>\<rfloor> \<le> \<bar>x\<bar> \<and> \<bar>x\<bar> < 2 powr (\<lfloor>log 2 \<bar>x\<bar>\<rfloor> + 1)"
  using floor_log_eq_powr_iff[of "\<bar>x\<bar>" 2 "\<lfloor>log 2 \<bar>x\<bar>\<rfloor>"] assms by simp

lemma floor_log_less:
  assumes "x \<noteq> 0" "\<bar>x\<bar> < 2 powr (real_of_int m)"
  shows "\<lfloor>log 2 \<bar>x\<bar>\<rfloor> < m"
proof (rule ccontr)
  assume "\<not> \<lfloor>log 2 \<bar>x\<bar>\<rfloor> < m"
  then have "m \<le> \<lfloor>log 2 \<bar>x\<bar>\<rfloor>" by simp
  then have "2 powr (real_of_int m) \<le> 2 powr \<lfloor>log 2 \<bar>x\<bar>\<rfloor>" by (intro powr_mono) simp_all
  then show False using binade[OF assms(1)] assms(2) by linarith
qed

lemma floor_log_ge:
  assumes "x \<noteq> 0" "2 powr (real_of_int m) \<le> \<bar>x\<bar>"
  shows "m \<le> \<lfloor>log 2 \<bar>x\<bar>\<rfloor>"
proof (rule ccontr)
  assume "\<not> m \<le> \<lfloor>log 2 \<bar>x\<bar>\<rfloor>"
  then have "\<lfloor>log 2 \<bar>x\<bar>\<rfloor> + 1 \<le> m" by simp
  then have "2 powr (\<lfloor>log 2 \<bar>x\<bar>\<rfloor> + 1) \<le> 2 powr (real_of_int m)"
    by (intro powr_mono) simp_all
  then show False using binade[OF assms(1)] assms(2) by linarith
qed

lemma rnd64_exact_strict:
  assumes x: "x = of_int N * 2 powr (real_of_int e)" and N: "\<bar>N\<bar> < 2 ^ 53" and e: "- 1074 \<le> e"
  shows "rnd64 x = x"
proof (cases "x = 0")
  case True
  then show ?thesis by (simp add: rnd64_def)
next
  case False
  define u where "u = ulpExponent x"
  have "\<bar>x\<bar> = of_int \<bar>N\<bar> * 2 powr (real_of_int e)" by (simp add: x abs_mult)
  also have "\<dots> < 2 ^ 53 * 2 powr (real_of_int e)"
  proof -
    have "real_of_int \<bar>N\<bar> < real_of_int (2 ^ 53)" using N by (simp only: of_int_less_iff)
    then show ?thesis by simp
  qed
  also have "\<dots> = 2 powr (real_of_int (53 + e))"
    by (simp add: powr_add)
  finally have "\<lfloor>log 2 \<bar>x\<bar>\<rfloor> < 53 + e" using floor_log_less[OF False] by blast
  then have ue: "u \<le> e" using e by (simp add: u_def ulpExponent_def)
  have "x / 2 powr (real_of_int u) = of_int N * 2 powr (real_of_int (e - u))"
    by (simp add: x powr_diff)
  also have "\<dots> = of_int N * of_int (2 ^ nat (e - u))"
    using ue by (subst two_powr_int) simp_all
  also have "\<dots> = of_int (N * 2 ^ nat (e - u))" by (simp only: of_int_mult)
  finally have q: "x / 2 powr (real_of_int u) = of_int (N * 2 ^ nat (e - u))" .
  have "rnd64 x = of_int (roundHalfEven (x / 2 powr (real_of_int u))) * 2 powr (real_of_int u)"
    using False by (simp add: rnd64_nz u_def)
  also have "\<dots> = (x / 2 powr (real_of_int u)) * 2 powr (real_of_int u)"
    by (simp only: q roundHalfEven_of_int)
  also have "\<dots> = x" by simp
  finally show ?thesis .
qed

lemma rnd64_exact:
  assumes x: "x = of_int N * 2 powr (real_of_int e)" and N: "\<bar>N\<bar> \<le> 2 ^ 53" and e: "- 1074 \<le> e"
  shows "rnd64 x = x"
proof (cases "\<bar>N\<bar> < 2 ^ 53")
  case True
  then show ?thesis using rnd64_exact_strict[OF x _ e] by blast
next
  case False
  then have "\<bar>N\<bar> = 2 ^ 53" using N by linarith
  then consider "N = 2 ^ 53" | "N = - (2 ^ 53)" by linarith
  then have "x = of_int (N div 2) * 2 powr (real_of_int (e + 1)) \<and> \<bar>N div 2\<bar> < 2 ^ 53"
  proof cases
    case 1
    then show ?thesis by (simp add: x powr_add)
  next
    case 2
    then show ?thesis by (simp add: x powr_add)
  qed
  then show ?thesis using rnd64_exact_strict[of x "N div 2" "e + 1"] e by simp
qed

lemma ulpExponent_ge: "- 1074 \<le> ulpExponent x"
  by (simp add: ulpExponent_def)

lemma scaled_bound:
  assumes "x \<noteq> 0"
  shows "\<bar>x / 2 powr (real_of_int (ulpExponent x))\<bar> < 2 ^ 53"
proof -
  define k where "k = \<lfloor>log 2 \<bar>x\<bar>\<rfloor>"
  define u where "u = ulpExponent x"
  have ku: "k + 1 - u \<le> 53" by (simp add: u_def k_def ulpExponent_def)
  have "\<bar>x / 2 powr (real_of_int u)\<bar> = \<bar>x\<bar> / 2 powr (real_of_int u)" by simp
  also have "\<dots> < 2 powr (real_of_int (k + 1)) / 2 powr (real_of_int u)"
    using binade[OF assms] by (simp add: k_def divide_strict_right_mono)
  also have "\<dots> = 2 powr (real_of_int (k + 1 - u))" by (simp add: powr_diff)
  also have "\<dots> \<le> 2 powr (real_of_int 53)" using ku by (intro powr_mono) simp_all
  also have "\<dots> = 2 ^ 53" by (simp add: powr_real_of_int)
  finally show ?thesis by (simp add: u_def)
qed

lemma rnd64_idem: "rnd64 (rnd64 x) = rnd64 x"
proof (cases "x = 0")
  case True
  then show ?thesis by (simp add: rnd64_def)
next
  case False
  define u where "u = ulpExponent x"
  define q where "q = x / 2 powr (real_of_int u)"
  define N where "N = roundHalfEven q"
  have r: "rnd64 x = of_int N * 2 powr (real_of_int u)"
    using False by (simp add: rnd64_nz u_def N_def q_def)
  have b: "\<bar>q\<bar> < 2 ^ 53" using scaled_bound[OF False] by (simp add: u_def q_def)
  have "q \<le> real_of_int (2 ^ 53)" using b by simp
  then have "N \<le> roundHalfEven (real_of_int (2 ^ 53))"
    unfolding N_def by (rule roundHalfEven_mono)
  moreover have "real_of_int (- (2 ^ 53)) \<le> q" using b by simp
  then have "roundHalfEven (real_of_int (- (2 ^ 53))) \<le> N"
    unfolding N_def by (rule roundHalfEven_mono)
  ultimately have "\<bar>N\<bar> \<le> 2 ^ 53" unfolding roundHalfEven_of_int by linarith
  from rnd64_exact[OF r this] show ?thesis using ulpExponent_ge[of x] by (simp add: u_def)
qed

lemma rnd64_nonneg:
  assumes "0 \<le> x"
  shows "0 \<le> rnd64 x"
proof (cases "x = 0")
  case True
  then show ?thesis by (simp add: rnd64_def)
next
  case False
  then have "0 \<le> x / 2 powr (real_of_int (ulpExponent x))" using assms by simp
  then have "0 \<le> \<lfloor>x / 2 powr (real_of_int (ulpExponent x))\<rfloor>" by simp
  then have "0 \<le> roundHalfEven (x / 2 powr (real_of_int (ulpExponent x)))"
    using roundHalfEven_bounds[of "x / 2 powr (real_of_int (ulpExponent x))"] by linarith
  then show ?thesis using False by (simp add: rnd64_nz)
qed

lemma rnd64_mono_pos:
  assumes "0 < x" "x \<le> y"
  shows "rnd64 x \<le> rnd64 y"
proof -
  define kx where "kx = \<lfloor>log 2 \<bar>x\<bar>\<rfloor>"
  define ky where "ky = \<lfloor>log 2 \<bar>y\<bar>\<rfloor>"
  define ux where "ux = ulpExponent x"
  define uy where "uy = ulpExponent y"
  have x0: "x \<noteq> 0" and y0: "y \<noteq> 0" and ypos: "0 < y" using assms by simp_all
  have rx: "rnd64 x = of_int (roundHalfEven (x / 2 powr (real_of_int ux))) * 2 powr (real_of_int ux)"
    using x0 by (simp add: rnd64_nz ux_def)
  have ry: "rnd64 y = of_int (roundHalfEven (y / 2 powr (real_of_int uy))) * 2 powr (real_of_int uy)"
    using y0 by (simp add: rnd64_nz uy_def)
  have "2 powr (real_of_int kx) \<le> \<bar>y\<bar>" using binade[OF x0] assms by (simp add: kx_def)
  then have kxy: "kx \<le> ky" unfolding ky_def by (rule floor_log_ge[OF y0])
  then have uxy: "ux \<le> uy" by (simp add: ux_def uy_def ulpExponent_def kx_def ky_def)
  show ?thesis
  proof (cases "ux = uy")
    case True
    have "x / 2 powr (real_of_int uy) \<le> y / 2 powr (real_of_int uy)"
      using assms by (simp add: divide_right_mono)
    then have "roundHalfEven (x / 2 powr (real_of_int uy)) \<le> roundHalfEven (y / 2 powr (real_of_int uy))"
      by (rule roundHalfEven_mono)
    then show ?thesis by (simp add: rx ry True)
  next
    case False
    then have lt: "ux < uy" using uxy by simp
    have "uy = max (ky - 52) (- 1074)" by (simp add: uy_def ulpExponent_def ky_def)
    moreover have "- 1074 \<le> ux" unfolding ux_def by (rule ulpExponent_ge)
    ultimately have uy: "uy = ky - 52" using lt by linarith
    have "kx - 52 \<le> ux" by (simp add: ux_def ulpExponent_def kx_def)
    then have kk: "kx + 1 \<le> ky" using lt uy by linarith
    have d: "0 \<le> ky - ux" using lt uy by linarith
    define c where "c = 2 powr (real_of_int ky)"
    have "x < 2 powr (real_of_int (kx + 1))" using binade[OF x0] assms by (simp add: kx_def)
    also have "\<dots> \<le> c" unfolding c_def using kk by (intro powr_mono) simp_all
    finally have xc: "x \<le> c" by simp
    have cy: "c \<le> y" using binade[OF y0] ypos by (simp add: c_def ky_def)
    have "x / 2 powr (real_of_int ux) \<le> c / 2 powr (real_of_int ux)"
      using xc by (simp add: divide_right_mono)
    also have "\<dots> = 2 powr (real_of_int (ky - ux))" by (simp add: c_def powr_diff)
    also have "\<dots> = of_int (2 ^ nat (ky - ux))" using d by (rule two_powr_int)
    finally have "roundHalfEven (x / 2 powr (real_of_int ux)) \<le> roundHalfEven (of_int (2 ^ nat (ky - ux)))"
      by (rule roundHalfEven_mono)
    then have "roundHalfEven (x / 2 powr (real_of_int ux)) \<le> 2 ^ nat (ky - ux)"
      by (simp only: roundHalfEven_of_int)
    then have "real_of_int (roundHalfEven (x / 2 powr (real_of_int ux))) \<le> real_of_int (2 ^ nat (ky - ux))"
      by (simp only: of_int_le_iff)
    then have "rnd64 x \<le> real_of_int (2 ^ nat (ky - ux)) * 2 powr (real_of_int ux)"
      unfolding rx by (intro mult_right_mono) simp_all
    also have "\<dots> = 2 powr (real_of_int (ky - ux)) * 2 powr (real_of_int ux)"
      using d by (simp only: two_powr_int)
    also have "\<dots> = c" by (simp add: c_def powr_diff)
    finally have 1: "rnd64 x \<le> c" .
    have "c / 2 powr (real_of_int uy) \<le> y / 2 powr (real_of_int uy)"
      using cy by (simp add: divide_right_mono)
    moreover have "c / 2 powr (real_of_int uy) = 2 powr (real_of_int 52)"
      by (simp add: c_def uy powr_diff)
    moreover have "2 powr (real_of_int 52) = of_int (2 ^ 52)" by (simp add: powr_real_of_int)
    ultimately have "of_int (2 ^ 52) \<le> y / 2 powr (real_of_int uy)" by simp
    then have "roundHalfEven (of_int (2 ^ 52)) \<le> roundHalfEven (y / 2 powr (real_of_int uy))"
      by (rule roundHalfEven_mono)
    then have "2 ^ 52 \<le> roundHalfEven (y / 2 powr (real_of_int uy))"
      by (simp only: roundHalfEven_of_int)
    then have "real_of_int (2 ^ 52) \<le> real_of_int (roundHalfEven (y / 2 powr (real_of_int uy)))"
      by (simp only: of_int_le_iff)
    then have "real_of_int (2 ^ 52) * 2 powr (real_of_int uy) \<le> rnd64 y"
      unfolding ry by (intro mult_right_mono) simp_all
    moreover have "real_of_int (2 ^ 52) * 2 powr (real_of_int uy) = c"
    proof -
      have e52: "real_of_int (2 ^ 52) = 2 powr (real_of_int 52)" by (simp add: powr_real_of_int)
      have "real_of_int (2 ^ 52) * 2 powr (real_of_int uy)
              = 2 powr (real_of_int 52) * 2 powr (real_of_int uy)" by (simp only: e52)
      also have "\<dots> = 2 powr (real_of_int 52 + real_of_int uy)" by (simp only: powr_add)
      also have "\<dots> = c" by (simp add: c_def uy)
      finally show ?thesis .
    qed
    ultimately have 2: "c \<le> rnd64 y" by simp
    from 1 2 show ?thesis by simp
  qed
qed

lemma rnd64_mono:
  assumes "0 \<le> x" "x \<le> y"
  shows "rnd64 x \<le> rnd64 y"
proof (cases "x = 0")
  case True
  then show ?thesis using rnd64_nonneg[of y] assms by (simp add: rnd64_def)
next
  case False
  then show ?thesis using rnd64_mono_pos[of x y] assms by simp
qed

lemma rnd64_tiny:
  assumes "0 \<le> x" "x < 2 powr (- 1075)"
  shows "rnd64 x = 0"
proof (cases "x = 0")
  case True
  then show ?thesis by (simp add: rnd64_def)
next
  case False
  have "\<bar>x\<bar> < 2 powr (real_of_int (- 1075))" using assms by simp
  then have "\<lfloor>log 2 \<bar>x\<bar>\<rfloor> < - 1075" by (rule floor_log_less[OF False])
  then have "\<lfloor>log 2 \<bar>x\<bar>\<rfloor> - 52 \<le> - 1074" by linarith
  then have u: "ulpExponent x = - 1074" unfolding ulpExponent_def by (rule max_absorb2)
  define q where "q = x / 2 powr (- 1074)"
  have "q < 2 powr (- 1075) / 2 powr (- 1074)"
    unfolding q_def using assms by (intro divide_strict_right_mono) simp_all
  also have "\<dots> = 2 powr (- 1)" by (simp add: powr_diff [symmetric])
  also have "\<dots> = 1 / 2" by (simp add: powr_minus_divide)
  finally have h: "q < 1 / 2" .
  have p: "0 \<le> q" unfolding q_def using assms by simp
  have "\<lfloor>q\<rfloor> = 0" using h p by (intro floor_unique) simp_all
  then have "roundHalfEven q = 0"
    using h by (simp add: roundHalfEven_def Let_def)
  then show ?thesis using False by (simp add: rnd64_nz u q_def)
qed

lemma rnd64_zero: "rnd64 0 = 0"
  by (simp add: rnd64_def)

lemma rnd64_int:
  assumes "\<bar>N\<bar> \<le> 2 ^ 53"
  shows "rnd64 (of_int N) = of_int N"
  using rnd64_exact[of "of_int N" N 0] assms by simp

lemma rnd64_half_pow:
  assumes "n \<le> 1074"
  shows "rnd64 (1 / 2 ^ n) = 1 / 2 ^ n"
proof -
  have "(1 :: real) / 2 ^ n = of_int 1 * 2 powr (real_of_int (- int n))"
    by (simp add: powr_minus_divide powr_realpow)
  then show ?thesis using rnd64_exact[of "1 / 2 ^ n" 1 "- int n"] assms by simp
qed

section \<open>Collision cuts\<close>

text \<open>
  C8. \<open>collisionPassesCuts\<close> answers true exactly when the absolute vertex z does not
  exceed the configured bound and either the gap side is not to be specified or the gap
  side of the collision is the configured one; each violated condition alone makes the
  answer false. The function reads the configuration and the collision only: the
  registry is neither an argument nor a result of it.
\<close>

theorem collisionPassesCuts_iff:
  "(collisionPassesCuts cfg c \<longleftrightarrow>
      \<not> \<bar>posZ c\<bar> > collisionsPosZMaxCut cfg \<and>
      (\<not> specifyGapSide cfg \<or> gapSide c = gapSideCfg cfg)) \<and>
   (\<bar>posZ c\<bar> > collisionsPosZMaxCut cfg \<longrightarrow> \<not> collisionPassesCuts cfg c) \<and>
   (specifyGapSide cfg \<and> gapSide c \<noteq> gapSideCfg cfg \<longrightarrow> \<not> collisionPassesCuts cfg c)"
  by (auto simp: collisionPassesCuts_def)

theorem collisionPassesCuts_iff_witness:
  "collisionPassesCuts defaultConfig (zdcCollision 0 0 0 0) \<and>
   \<not> collisionPassesCuts defaultConfig ((zdcCollision 0 0 0 0) \<lparr> posZ := 11 \<rparr>) \<and>
   \<not> collisionPassesCuts defaultConfig ((zdcCollision 0 0 0 0) \<lparr> gapSide := 1 \<rparr>) \<and>
   collisionPassesCuts (defaultConfig \<lparr> specifyGapSide := False \<rparr>)
     ((zdcCollision 0 0 0 0) \<lparr> gapSide := 1 \<rparr>)"
  using collisionPassesCuts_iff [of defaultConfig "zdcCollision 0 0 0 0"]
    collisionPassesCuts_iff [of defaultConfig "(zdcCollision 0 0 0 0) \<lparr> posZ := 11 \<rparr>"]
    collisionPassesCuts_iff [of defaultConfig "(zdcCollision 0 0 0 0) \<lparr> gapSide := 1 \<rparr>"]
    collisionPassesCuts_iff [of "defaultConfig \<lparr> specifyGapSide := False \<rparr>"
      "(zdcCollision 0 0 0 0) \<lparr> gapSide := 1 \<rparr>"]
  by (simp add: defaultConfig_def zdcCollision_def)

section \<open>Event tagging\<close>

text \<open>
  C2. Each of the four flags is set exactly under its condition on the two energies and
  the two times. With the energy threshold 0 and the time window 2, the readings
  energyA = 5, timeA = 5, energyC = -1, timeC = 0 set none of the four flags: side A
  is above the threshold and outside the window.
\<close>

theorem eventTagging_conditions:
  "(OnOn (eventTagging cfg c) \<longleftrightarrow>
      energyCommonZNA c < ZNcommonEnergyCut cfg \<and> energyCommonZNC c < ZNcommonEnergyCut cfg) \<and>
   (XnXn (eventTagging cfg c) \<longleftrightarrow>
      energyCommonZNA c > ZNcommonEnergyCut cfg \<and> \<bar>timeZNA c\<bar> < ZNtimeCut cfg \<and>
      energyCommonZNC c > ZNcommonEnergyCut cfg \<and> \<bar>timeZNC c\<bar> < ZNtimeCut cfg) \<and>
   (XnOn (eventTagging cfg c) \<longleftrightarrow>
      energyCommonZNA c > ZNcommonEnergyCut cfg \<and> \<bar>timeZNA c\<bar> < ZNtimeCut cfg \<and>
      energyCommonZNC c < ZNcommonEnergyCut cfg) \<and>
   (OnXn (eventTagging cfg c) \<longleftrightarrow>
      energyCommonZNA c < ZNcommonEnergyCut cfg \<and>
      energyCommonZNC c > ZNcommonEnergyCut cfg \<and> \<bar>timeZNC c\<bar> < ZNtimeCut cfg) \<and>
   ZNcommonEnergyCut defaultConfig = 0 \<and> ZNtimeCut defaultConfig = 2 \<and>
   \<not> OnOn (eventTagging defaultConfig (zdcCollision 5 5 (- 1) 0)) \<and>
   \<not> XnOn (eventTagging defaultConfig (zdcCollision 5 5 (- 1) 0)) \<and>
   \<not> OnXn (eventTagging defaultConfig (zdcCollision 5 5 (- 1) 0)) \<and>
   \<not> XnXn (eventTagging defaultConfig (zdcCollision 5 5 (- 1) 0))"
  by (simp add: eventTagging_def defaultConfig_def zdcCollision_def)

text \<open>
  C5. At most one of the four flags is set, whatever the readings and the thresholds:
  any two of the conditions ask for an energy both below and above the threshold. For
  some readings no flag is set.
\<close>

theorem eventTagging_at_most_one:
  "tagCount (eventTagging cfg c) \<le> 1 \<and>
   \<not> (OnOn (eventTagging cfg c) \<and> XnOn (eventTagging cfg c)) \<and>
   \<not> (OnOn (eventTagging cfg c) \<and> OnXn (eventTagging cfg c)) \<and>
   \<not> (OnOn (eventTagging cfg c) \<and> XnXn (eventTagging cfg c)) \<and>
   \<not> (XnOn (eventTagging cfg c) \<and> OnXn (eventTagging cfg c)) \<and>
   \<not> (XnOn (eventTagging cfg c) \<and> XnXn (eventTagging cfg c)) \<and>
   \<not> (OnXn (eventTagging cfg c) \<and> XnXn (eventTagging cfg c)) \<and>
   tagCount (eventTagging defaultConfig (zdcCollision 5 5 5 5)) = 0"
  by (auto simp: eventTagging_def tagCount_def defaultConfig_def zdcCollision_def)

section \<open>The joint pion identification cut\<close>

lemma stdPow2_nonneg: "0 \<le> stdPow2 a"
  unfolding stdPow2_def by (rule rnd64_nonneg) simp

lemma stdPow2_double: "rnd64 (stdPow2 a) = stdPow2 a"
  by (simp add: stdPow2_def rnd64_idem)

lemma stdPow2_mono:
  assumes "\<bar>a\<bar> \<le> \<bar>b\<bar>"
  shows "stdPow2 a \<le> stdPow2 b"
proof -
  have "\<bar>a\<bar> * \<bar>a\<bar> \<le> \<bar>b\<bar> * \<bar>b\<bar>" using assms by (intro mult_mono) simp_all
  then have "a * a \<le> b * b" by simp
  then show ?thesis unfolding stdPow2_def by (intro rnd64_mono) simp_all
qed

lemma pidRadius_Nil: "pidRadius [] = 0"
  by (simp add: pidRadius_def)

lemma pidRadius_snoc:
  "pidRadius (ts @ [t]) = dadd (pidRadius ts) (stdPow2 (tpcNSigmaPi t))"
  by (simp add: pidRadius_def)

lemma pidRadius_double: "rnd64 (pidRadius ts) = pidRadius ts"
  by (induction ts rule: rev_induct) (simp_all add: pidRadius_Nil pidRadius_snoc rnd64_zero dadd_def rnd64_idem)

lemma pidRadius_nonneg: "0 \<le> pidRadius ts"
proof (induction ts rule: rev_induct)
  case Nil
  then show ?case by (simp add: pidRadius_Nil)
next
  case (snoc t ts)
  have "0 \<le> pidRadius ts + stdPow2 (tpcNSigmaPi t)"
    using snoc stdPow2_nonneg[of "tpcNSigmaPi t"] by simp
  then show ?case by (simp add: pidRadius_snoc dadd_def rnd64_nonneg)
qed

lemma pidRadius_ge:
  assumes "t \<in> set ts"
  shows "stdPow2 (tpcNSigmaPi t) \<le> pidRadius ts"
  using assms
proof (induction ts rule: rev_induct)
  case Nil
  then show ?case by simp
next
  case (snoc u ts)
  let ?r = "pidRadius ts" and ?s = "stdPow2 (tpcNSigmaPi u)"
  have r: "0 \<le> ?r" by (rule pidRadius_nonneg)
  have s: "0 \<le> ?s" by (rule stdPow2_nonneg)
  have ge_s: "?s \<le> rnd64 (?r + ?s)"
    using rnd64_mono[of ?s "?r + ?s"] r s by (simp add: stdPow2_double)
  have ge_r: "?r \<le> rnd64 (?r + ?s)"
    using rnd64_mono[of ?r "?r + ?s"] r s by (simp add: pidRadius_double)
  show ?case
  proof (cases "t = u")
    case True
    then show ?thesis using ge_s by (simp add: pidRadius_snoc dadd_def)
  next
    case False
    then have "t \<in> set ts" using snoc.prems by simp
    from snoc.IH[OF this] show ?thesis using ge_r by (simp add: pidRadius_snoc dadd_def)
  qed
qed

lemma exceeding_rejected:
  assumes "0 \<le> tracksTpcNSigmaPiCut cfg" "t \<in> set ts"
    and "tracksTpcNSigmaPiCut cfg \<le> \<bar>tpcNSigmaPi t\<bar>"
  shows "\<not> tracksPassPiPID cfg ts"
proof -
  have "stdPow2 (tracksTpcNSigmaPiCut cfg) \<le> stdPow2 (tpcNSigmaPi t)"
    using assms(1,3) by (intro stdPow2_mono) simp
  also have "\<dots> \<le> pidRadius ts" by (rule pidRadius_ge[OF assms(2)])
  finally show ?thesis by (simp add: tracksPassPiPID_def)
qed

lemma pidRadius_two:
  "pidRadius [t1, t2] = dadd (stdPow2 (tpcNSigmaPi t1)) (stdPow2 (tpcNSigmaPi t2))"
  by (simp add: pidRadius_def dadd_def stdPow2_double)

lemma two_tracks_exact:
  assumes "tracksPassPiPID cfg [t1, t2]"
  shows "stdPow2 (tpcNSigmaPi t1) + stdPow2 (tpcNSigmaPi t2)
           < tracksTpcNSigmaPiCut cfg * tracksTpcNSigmaPiCut cfg"
proof (rule ccontr)
  assume "\<not> ?thesis"
  then have le: "tracksTpcNSigmaPiCut cfg * tracksTpcNSigmaPiCut cfg
           \<le> stdPow2 (tpcNSigmaPi t1) + stdPow2 (tpcNSigmaPi t2)" by simp
  have "stdPow2 (tracksTpcNSigmaPiCut cfg) \<le> pidRadius [t1, t2]"
    unfolding pidRadius_two dadd_def stdPow2_def [of "tracksTpcNSigmaPiCut cfg"]
    using le by (intro rnd64_mono) simp_all
  then show False using assms by (simp add: tracksPassPiPID_def)
qed

lemma rnd64_625: "rnd64 (25 / 4) = 25 / 4"
  using rnd64_exact[of "25 / 4" 25 "- 2"] by (simp add: powr_minus_divide)

lemma rnd64_125: "rnd64 (25 / 2) = 25 / 2"
  using rnd64_exact[of "25 / 2" 25 "- 1"] by (simp add: powr_minus_divide)

lemma rnd64_small_ints:
  "rnd64 1 = 1" "rnd64 4 = 4" "rnd64 5 = 5" "rnd64 9 = 9"
  using rnd64_int[of 1] rnd64_int[of 4] rnd64_int[of 5] rnd64_int[of 9] by simp_all

text \<open>
  C1, as amended. \<open>tracksPassPiPID\<close> accepts exactly when the double \<open>radius\<close>, the sum
  of the rounded squares of the pion responses accumulated in the order of the tracks,
  is strictly below the rounded square of the configured cut; for two tracks exactly
  when the rounded sum of the two rounded squares is below it. For two tracks whose
  squares a * a and b * b are doubles, as they are for the float responses of the
  table, acceptance implies that a * a + b * b is below the squared cut in exact
  arithmetic. With a cut that is not negative, every track of an accepted collection
  has an absolute response below the cut: a track at or beyond the cut is never
  compensated by the others. Two tracks that are each below the cut are rejected when
  the sum is not below the squared cut, as 2.5 and 2.5 under the cut 3.
\<close>

theorem tracksPassPiPID_joint_radius:
  "(tracksPassPiPID cfg ts \<longleftrightarrow> pidRadius ts < stdPow2 (tracksTpcNSigmaPiCut cfg)) \<and>
   pidRadius [] = 0 \<and>
   pidRadius (ts @ [t]) = dadd (pidRadius ts) (stdPow2 (tpcNSigmaPi t)) \<and>
   (tracksPassPiPID cfg [t1, t2] \<longleftrightarrow>
      dadd (stdPow2 (tpcNSigmaPi t1)) (stdPow2 (tpcNSigmaPi t2))
        < stdPow2 (tracksTpcNSigmaPiCut cfg)) \<and>
   (rnd64 (tpcNSigmaPi t1 * tpcNSigmaPi t1) = tpcNSigmaPi t1 * tpcNSigmaPi t1 \<and>
    rnd64 (tpcNSigmaPi t2 * tpcNSigmaPi t2) = tpcNSigmaPi t2 * tpcNSigmaPi t2 \<and>
    tracksPassPiPID cfg [t1, t2] \<longrightarrow>
      (tpcNSigmaPi t1)\<^sup>2 + (tpcNSigmaPi t2)\<^sup>2 < (tracksTpcNSigmaPiCut cfg)\<^sup>2) \<and>
   (0 \<le> tracksTpcNSigmaPiCut cfg \<longrightarrow> tracksPassPiPID cfg ts \<longrightarrow>
      (\<forall>t \<in> set ts. \<bar>tpcNSigmaPi t\<bar> < tracksTpcNSigmaPiCut cfg)) \<and>
   (\<bar>tpcNSigmaPi (pidTrack 2.5 1)\<bar> < tracksTpcNSigmaPiCut defaultConfig \<and>
    \<bar>tpcNSigmaPi (pidTrack 2.5 (- 1))\<bar> < tracksTpcNSigmaPiCut defaultConfig \<and>
    \<not> tracksPassPiPID defaultConfig [pidTrack 2.5 1, pidTrack 2.5 (- 1)])"
proof (intro conjI impI ballI)
  show "tracksPassPiPID cfg ts \<longleftrightarrow> pidRadius ts < stdPow2 (tracksTpcNSigmaPiCut cfg)"
    by (simp add: tracksPassPiPID_def)
  show "pidRadius [] = 0" by (rule pidRadius_Nil)
  show "pidRadius (ts @ [t]) = dadd (pidRadius ts) (stdPow2 (tpcNSigmaPi t))"
    by (rule pidRadius_snoc)
  show "tracksPassPiPID cfg [t1, t2] \<longleftrightarrow>
      dadd (stdPow2 (tpcNSigmaPi t1)) (stdPow2 (tpcNSigmaPi t2))
        < stdPow2 (tracksTpcNSigmaPiCut cfg)"
    by (simp add: tracksPassPiPID_def pidRadius_two)
next
  assume h: "rnd64 (tpcNSigmaPi t1 * tpcNSigmaPi t1) = tpcNSigmaPi t1 * tpcNSigmaPi t1 \<and>
    rnd64 (tpcNSigmaPi t2 * tpcNSigmaPi t2) = tpcNSigmaPi t2 * tpcNSigmaPi t2 \<and>
    tracksPassPiPID cfg [t1, t2]"
  then show "(tpcNSigmaPi t1)\<^sup>2 + (tpcNSigmaPi t2)\<^sup>2 < (tracksTpcNSigmaPiCut cfg)\<^sup>2"
    using two_tracks_exact[of cfg t1 t2] by (simp add: stdPow2_def power2_eq_square)
next
  fix u
  assume cut: "0 \<le> tracksTpcNSigmaPiCut cfg" and acc: "tracksPassPiPID cfg ts"
    and mem: "u \<in> set ts"
  show "\<bar>tpcNSigmaPi u\<bar> < tracksTpcNSigmaPiCut cfg"
  proof (rule ccontr)
    assume "\<not> \<bar>tpcNSigmaPi u\<bar> < tracksTpcNSigmaPiCut cfg"
    then have "tracksTpcNSigmaPiCut cfg \<le> \<bar>tpcNSigmaPi u\<bar>" by simp
    from exceeding_rejected[OF cut mem this] acc show False by simp
  qed
next
  show "\<not> tracksPassPiPID defaultConfig [pidTrack 2.5 1, pidTrack 2.5 (- 1)]"
    by (simp add: tracksPassPiPID_def pidRadius_two pidTrack_def defaultConfig_def
        stdPow2_def dadd_def rnd64_625 rnd64_125 rnd64_small_ints)
qed (simp_all add: pidTrack_def defaultConfig_def)

theorem tracksPassPiPID_joint_radius_witness:
  "0 \<le> tracksTpcNSigmaPiCut defaultConfig \<and>
   rnd64 (tpcNSigmaPi (pidTrack 1 1) * tpcNSigmaPi (pidTrack 1 1))
     = tpcNSigmaPi (pidTrack 1 1) * tpcNSigmaPi (pidTrack 1 1) \<and>
   rnd64 (tpcNSigmaPi (pidTrack 2 (- 1)) * tpcNSigmaPi (pidTrack 2 (- 1)))
     = tpcNSigmaPi (pidTrack 2 (- 1)) * tpcNSigmaPi (pidTrack 2 (- 1)) \<and>
   tracksPassPiPID defaultConfig [pidTrack 1 1, pidTrack 2 (- 1)] \<and>
   (tpcNSigmaPi (pidTrack 1 1))\<^sup>2 + (tpcNSigmaPi (pidTrack 2 (- 1)))\<^sup>2
     < (tracksTpcNSigmaPiCut defaultConfig)\<^sup>2 \<and>
   \<bar>tpcNSigmaPi (pidTrack 2 (- 1))\<bar> < tracksTpcNSigmaPiCut defaultConfig"
proof -
  have acc: "tracksPassPiPID defaultConfig [pidTrack 1 1, pidTrack 2 (- 1)]"
    by (simp add: tracksPassPiPID_def pidRadius_two pidTrack_def defaultConfig_def
        stdPow2_def dadd_def rnd64_small_ints)
  show ?thesis
    using tracksPassPiPID_joint_radius
      [of defaultConfig "[pidTrack 1 1, pidTrack 2 (- 1)]" "pidTrack 1 1" "pidTrack 1 1"
          "pidTrack 2 (- 1)"] acc
    by (simp add: pidTrack_def defaultConfig_def rnd64_small_ints)
qed

text \<open>
  The claim C1 as it was stated fails twice. Under the cut 3 of the source no pair of
  tracks in which one absolute response exceeds the cut is accepted, however clean the
  other track is. And acceptance is not the comparison of the exact sum of squares with
  the exact squared cut: under the positive cut \<open>1 / 2 ^ 600\<close>, whose square rounds
  to 0, two tracks with the response 0 are rejected although 0 is below the exact
  squared cut.
\<close>

theorem exceeding_track_counterexample:
  "\<not> (\<exists>a b. \<bar>a\<bar> > tracksTpcNSigmaPiCut defaultConfig \<and>
        tracksPassPiPID defaultConfig [pidTrack a 1, pidTrack b (- 1)]) \<and>
   (tpcNSigmaPi (pidTrack 0 1))\<^sup>2 + (tpcNSigmaPi (pidTrack 0 (- 1)))\<^sup>2
      < (tracksTpcNSigmaPiCut (defaultConfig \<lparr> tracksTpcNSigmaPiCut := 1 / 2 ^ 600 \<rparr>))\<^sup>2 \<and>
   \<not> tracksPassPiPID (defaultConfig \<lparr> tracksTpcNSigmaPiCut := 1 / 2 ^ 600 \<rparr>)
         [pidTrack 0 1, pidTrack 0 (- 1)]"
proof (intro conjI)
  show "\<not> (\<exists>a b. \<bar>a\<bar> > tracksTpcNSigmaPiCut defaultConfig \<and>
        tracksPassPiPID defaultConfig [pidTrack a 1, pidTrack b (- 1)])"
  proof
    assume "\<exists>a b. \<bar>a\<bar> > tracksTpcNSigmaPiCut defaultConfig \<and>
        tracksPassPiPID defaultConfig [pidTrack a 1, pidTrack b (- 1)]"
    then obtain a b where a: "\<bar>a\<bar> > tracksTpcNSigmaPiCut defaultConfig"
      and acc: "tracksPassPiPID defaultConfig [pidTrack a 1, pidTrack b (- 1)]" by blast
    have "\<not> tracksPassPiPID defaultConfig [pidTrack a 1, pidTrack b (- 1)]"
      using a by (intro exceeding_rejected[of _ "pidTrack a 1"])
        (simp_all add: defaultConfig_def pidTrack_def)
    then show False using acc by simp
  qed
  have sq: "(1 / 2 ^ 600) * (1 / 2 ^ 600) = (1 :: real) / 2 ^ 1200"
    by (simp add: power_add [symmetric])
  have "(1 :: real) / 2 ^ 1200 < 2 powr (- 1075)"
  proof -
    have "(1 :: real) / 2 ^ 1200 = 2 powr (- 1200)" by (simp add: powr_minus_divide powr_realpow [symmetric])
    also have "\<dots> < 2 powr (- 1075)" by (intro powr_less_mono) simp_all
    finally show ?thesis .
  qed
  then have z: "rnd64 ((1 :: real) / 2 ^ 1200) = 0" by (intro rnd64_tiny) simp_all
  have cutv: "tracksTpcNSigmaPiCut (defaultConfig \<lparr> tracksTpcNSigmaPiCut := 1 / 2 ^ 600 \<rparr>)
                = 1 / 2 ^ 600" by simp
  have p: "stdPow2 (1 / 2 ^ 600) = 0" by (simp only: stdPow2_def sq z)
  have r: "pidRadius [pidTrack 0 1, pidTrack 0 (- 1)] = 0"
    by (simp add: pidRadius_def pidTrack_def stdPow2_def dadd_def rnd64_zero)
  show "\<not> tracksPassPiPID (defaultConfig \<lparr> tracksTpcNSigmaPiCut := 1 / 2 ^ 600 \<rparr>)
         [pidTrack 0 1, pidTrack 0 (- 1)]"
    unfolding tracksPassPiPID_def cutv p r by simp
  show "(tpcNSigmaPi (pidTrack 0 1))\<^sup>2 + (tpcNSigmaPi (pidTrack 0 (- 1)))\<^sup>2
      < (tracksTpcNSigmaPiCut (defaultConfig \<lparr> tracksTpcNSigmaPiCut := 1 / 2 ^ 600 \<rparr>))\<^sup>2"
    by (simp add: pidTrack_def)
qed

section \<open>Track cuts\<close>

lemma stageFills_simps:
  "stageFills 0 = []"
  "stageFills (Suc 0) = [(1, 1)]"
  "stageFills 2 = [(1, 1), (2, 1)]"
  "stageFills 3 = [(1, 1), (2, 1), (3, 1)]"
  "stageFills 4 = [(1, 1), (2, 1), (3, 1), (4, 1)]"
  "stageFills 5 = [(1, 1), (2, 1), (3, 1), (4, 1), (5, 1)]"
  by (simp_all add: stageFills_def upt_conv_Cons)

lemma stageFills_Suc: "stageFills (Suc n) = stageFills n @ [(Suc n, 1)]"
  by (simp add: stageFills_def)

lemma stageFills_0: "stageFills 0 = []"
  by (simp add: stageFills_def)

lemma length_stageFills: "length (stageFills n) = n"
  by (simp add: stageFills_def)

lemma stagesPassed_le: "stagesPassed cfg t \<le> 5"
proof -
  have "length (takeWhile id (stageResults cfg t)) \<le> length (stageResults cfg t)"
    by (rule length_takeWhile_le)
  then show ?thesis by (simp add: stagesPassed_def stageResults_def)
qed

lemma trackPassesCuts_stages:
  "trackPassesCuts cfg t reg = (stagesPassed cfg t = 5, reg @ stageFills (stagesPassed cfg t))"
  by (simp add: trackPassesCuts_def stagesPassed_def stageResults_def Let_def
      fill_def fillW_def stageFills_Suc stageFills_0 eval_nat_numeral)

text \<open>
  C3. \<open>trackPassesCuts\<close> evaluates the five stages in the order primary-vertex
  contributor, ITS and TPC hit, TOF requirement (a stage that is passed when the
  configuration does not require TOF), DCA cut, pseudorapidity cut, and stops at the
  first stage that fails. A call appends to the registry the fills of the bins 1 to n,
  in this order and nothing else, where n is the number of stages passed before the
  first failure; it returns true exactly when n is 5.
\<close>

theorem trackPassesCuts_short_circuit:
  "trackPassesCuts cfg t reg = (stagesPassed cfg t = 5, reg @ stageFills (stagesPassed cfg t)) \<and>
   length (snd (trackPassesCuts cfg t reg)) = length reg + stagesPassed cfg t \<and>
   stagesPassed cfg t \<le> 5 \<and>
   (fst (trackPassesCuts cfg t reg) \<longleftrightarrow> stagesPassed cfg t = 5)"
  by (simp add: trackPassesCuts_stages length_stageFills stagesPassed_le)

lemma pidTrack_passes: "stagesPassed defaultConfig (pidTrack ns q) = 5"
  by (simp add: stagesPassed_def stageResults_def pidTrack_def defaultConfig_def
      dcaCutFails_def eta_def momentum_def PcEtaCut_def)

theorem trackPassesCuts_short_circuit_witness:
  "trackPassesCuts defaultConfig (pidTrack 0 1) [] =
     (True, [(1, 1), (2, 1), (3, 1), (4, 1), (5, 1)]) \<and>
   trackPassesCuts defaultConfig ((pidTrack 0 1) \<lparr> dcaZ := 2 \<rparr>) [(0, 1)] =
     (False, [(0, 1), (1, 1), (2, 1), (3, 1)])"
proof -
  have a: "stagesPassed defaultConfig (pidTrack 0 1) = 5" by (rule pidTrack_passes)
  have b: "stagesPassed defaultConfig ((pidTrack 0 1) \<lparr> dcaZ := 2 \<rparr>) = 3"
    by (simp add: stagesPassed_def stageResults_def pidTrack_def defaultConfig_def
      dcaCutFails_def)
  show ?thesis
    using trackPassesCuts_short_circuit [of defaultConfig "pidTrack 0 1" "[]"]
      trackPassesCuts_short_circuit [of defaultConfig "(pidTrack 0 1) \<lparr> dcaZ := 2 \<rparr>" "[(0, 1)]"]
    by (simp add: a b stageFills_simps)
qed




section \<open>Event processing\<close>

lemma trackLoop_none_pass:
  "\<forall>t \<in> set ts. stagesPassed cfg t < 5 \<Longrightarrow>
     fst (trackLoop cfg ts (ct, cv, reg)) = ct \<and> fst (snd (trackLoop cfg ts (ct, cv, reg))) = cv"
  by (induction ts arbitrary: reg) (simp_all add: trackPassesCuts_stages)

lemma stdPow2_pos:
  assumes "1 / 2 ^ 537 \<le> c"
  shows "0 < stdPow2 c"
proof -
  have c: "(0 :: real) < 1 / 2 ^ 537" by simp
  have "(1 / 2 ^ 537) * (1 / 2 ^ 537) \<le> c * c"
    using assms c by (intro mult_mono) simp_all
  moreover have "(1 / 2 ^ 537) * (1 / 2 ^ 537) = (1 :: real) / 2 ^ 1074"
    by (simp add: power_add [symmetric])
  ultimately have "(1 :: real) / 2 ^ 1074 \<le> c * c" by (simp only:)
  then have "rnd64 (1 / 2 ^ 1074) \<le> rnd64 (c * c)" by (intro rnd64_mono) simp_all
  moreover have "rnd64 (1 / 2 ^ 1074) = 1 / 2 ^ 1074" by (rule rnd64_half_pow) simp
  moreover have "(0 :: real) < 1 / 2 ^ 1074" by simp
  ultimately show ?thesis unfolding stdPow2_def by (simp only:)
qed

text \<open>
  C10, as amended. \<open>tracksPassPiPID\<close> accepts the empty collection exactly when the
  rounded square of the cut is positive, which holds for every cut of at least
  \<open>1 / 2 ^ 537\<close>, the default 3 among them. When it does, the collision passes its cuts
  and no track passes the track cuts, \<open>processReco\<close> does not return at the
  identification check: it fills bin 6 of the selection counter with weight 2 and goes
  on with a system of no tracks.
\<close>

theorem empty_set_passes_pid:
  "(tracksPassPiPID cfg [] \<longleftrightarrow> 0 < stdPow2 (tracksTpcNSigmaPiCut cfg)) \<and>
   (1 / 2 ^ 537 \<le> tracksTpcNSigmaPiCut cfg \<longrightarrow> tracksPassPiPID cfg []) \<and>
   (tracksPassPiPID cfg [] \<and> collisionPassesCuts cfg c \<and>
    (\<forall>t \<in> set tracks. stagesPassed cfg t < 5) \<longrightarrow>
      processReco cfg c tracks reg =
        (Reconstructed \<lparr> tags = eventTagging cfg c, cutTracksOf = [], system = vecZero,
                        totalCharge = 0, nTracks = 0 \<rparr>,
         fillW 6 2 (snd (snd (trackLoop cfg tracks ([], [], reg))))))"
proof (intro conjI impI)
  show iff: "tracksPassPiPID cfg [] \<longleftrightarrow> 0 < stdPow2 (tracksTpcNSigmaPiCut cfg)"
    by (simp add: tracksPassPiPID_def pidRadius_def)
  assume "1 / 2 ^ 537 \<le> tracksTpcNSigmaPiCut cfg"
  then show "tracksPassPiPID cfg []" using stdPow2_pos iff by blast
next
  assume h: "tracksPassPiPID cfg [] \<and> collisionPassesCuts cfg c \<and>
    (\<forall>t \<in> set tracks. stagesPassed cfg t < 5)"
  obtain ct cv r where l: "trackLoop cfg tracks ([], [], reg) = (ct, cv, r)"
    by (cases "trackLoop cfg tracks ([], [], reg)") auto
  from h trackLoop_none_pass[of tracks cfg "[]" "[]" reg] l have e: "ct = []" "cv = []" by simp_all
  show "processReco cfg c tracks reg =
              (Reconstructed \<lparr> tags = eventTagging cfg c, cutTracksOf = [], system = vecZero,
                              totalCharge = 0, nTracks = 0 \<rparr>,
               fillW 6 2 (snd (snd (trackLoop cfg tracks ([], [], reg)))))"
    using h by (simp add: processReco_def l e reconstructSystem_def tracksTotalCharge_def)
qed

theorem empty_set_passes_pid_witness:
  "1 / 2 ^ 537 \<le> tracksTpcNSigmaPiCut defaultConfig \<and> tracksPassPiPID defaultConfig [] \<and>
   processReco defaultConfig (zdcCollision 0 0 0 0) [(pidTrack 0 1) \<lparr> isPVContributor := False \<rparr>] [] =
     (Reconstructed \<lparr> tags = eventTagging defaultConfig (zdcCollision 0 0 0 0), cutTracksOf = [],
                     system = vecZero, totalCharge = 0, nTracks = 0 \<rparr>,
      [(0, 1), (6, 2)])"
proof -
  have c: "1 / 2 ^ 537 \<le> tracksTpcNSigmaPiCut defaultConfig"
  proof -
    have "(1 :: real) / 2 ^ 537 \<le> 1" by simp
    then show ?thesis by (simp add: defaultConfig_def)
  qed
  have p: "collisionPassesCuts defaultConfig (zdcCollision 0 0 0 0)"
    by (simp add: collisionPassesCuts_def defaultConfig_def zdcCollision_def)
  have s: "stagesPassed defaultConfig ((pidTrack 0 1) \<lparr> isPVContributor := False \<rparr>) = 0"
    by (simp add: stagesPassed_def stageResults_def pidTrack_def)
  have l: "snd (snd (trackLoop defaultConfig [(pidTrack 0 1) \<lparr> isPVContributor := False \<rparr>]
                       ([], [], []))) = [(0, 1)]"
    by (simp add: trackPassesCuts_def pidTrack_def fill_def fillW_def)
  have a: "tracksPassPiPID defaultConfig []"
    using empty_set_passes_pid [of defaultConfig "zdcCollision 0 0 0 0"
        "[(pidTrack 0 1) \<lparr> isPVContributor := False \<rparr>]" "[]"] c by blast
  have "processReco defaultConfig (zdcCollision 0 0 0 0)
          [(pidTrack 0 1) \<lparr> isPVContributor := False \<rparr>] [] =
     (Reconstructed \<lparr> tags = eventTagging defaultConfig (zdcCollision 0 0 0 0), cutTracksOf = [],
                     system = vecZero, totalCharge = 0, nTracks = 0 \<rparr>,
      fillW 6 2 (snd (snd (trackLoop defaultConfig
          [(pidTrack 0 1) \<lparr> isPVContributor := False \<rparr>] ([], [], [])))))"
    using empty_set_passes_pid [of defaultConfig "zdcCollision 0 0 0 0"
        "[(pidTrack 0 1) \<lparr> isPVContributor := False \<rparr>]" "[]"] a p s by simp
  then show ?thesis using c a by (simp only: l fillW_def) simp
qed

text \<open>
  The claim C10 as it was stated fails: the cut \<open>1 / 2 ^ 600\<close> is positive, its square
  rounds to 0, the empty collection is rejected, and \<open>processReco\<close> returns at the
  identification check without the fill of bin 6.
\<close>

theorem tiny_cut_counterexample:
  "0 < tracksTpcNSigmaPiCut (defaultConfig \<lparr> tracksTpcNSigmaPiCut := 1 / 2 ^ 600 \<rparr>) \<and>
   \<not> tracksPassPiPID (defaultConfig \<lparr> tracksTpcNSigmaPiCut := 1 / 2 ^ 600 \<rparr>) [] \<and>
   processReco (defaultConfig \<lparr> tracksTpcNSigmaPiCut := 1 / 2 ^ 600 \<rparr>)
     (zdcCollision 0 0 0 0) [] [] = (PidRejected, [])"
proof -
  have sq: "(1 / 2 ^ 600) * (1 / 2 ^ 600) = (1 :: real) / 2 ^ 1200"
    by (simp add: power_add [symmetric])
  have "(1 :: real) / 2 ^ 1200 < 2 powr (- 1075)"
  proof -
    have "(1 :: real) / 2 ^ 1200 = 2 powr (- 1200)"
      by (simp add: powr_minus_divide powr_realpow [symmetric])
    also have "\<dots> < 2 powr (- 1075)" by (intro powr_less_mono) simp_all
    finally show ?thesis .
  qed
  then have z: "rnd64 ((1 :: real) / 2 ^ 1200) = 0" by (intro rnd64_tiny) simp_all
  have cutv: "tracksTpcNSigmaPiCut (defaultConfig \<lparr> tracksTpcNSigmaPiCut := 1 / 2 ^ 600 \<rparr>)
                = 1 / 2 ^ 600" by simp
  have p: "stdPow2 (1 / 2 ^ 600) = 0" by (simp only: stdPow2_def sq z)
  have n: "\<not> tracksPassPiPID (defaultConfig \<lparr> tracksTpcNSigmaPiCut := 1 / 2 ^ 600 \<rparr>) []"
    unfolding tracksPassPiPID_def cutv p by (simp add: pidRadius_def)
  have c: "collisionPassesCuts (defaultConfig \<lparr> tracksTpcNSigmaPiCut := 1 / 2 ^ 600 \<rparr>)
             (zdcCollision 0 0 0 0)"
    by (simp add: collisionPassesCuts_def defaultConfig_def zdcCollision_def)
  have r: "processReco (defaultConfig \<lparr> tracksTpcNSigmaPiCut := 1 / 2 ^ 600 \<rparr>)
     (zdcCollision 0 0 0 0) [] [] = (PidRejected, [])"
    using n c by (simp add: processReco_def)
  have "(0 :: real) < 1 / 2 ^ 600" by simp
  then have "0 < tracksTpcNSigmaPiCut (defaultConfig \<lparr> tracksTpcNSigmaPiCut := 1 / 2 ^ 600 \<rparr>)"
    by (simp only: cutv)
  then show ?thesis using n r by blast
qed

section \<open>System reconstruction\<close>

lemma SetPxPyPzE_fields:
  "fX (SetPxPyPzE x y z e) = x" "fY (SetPxPyPzE x y z e) = y" "fZ (SetPxPyPzE x y z e) = z"
  by (simp_all add: SetPxPyPzE_def Let_def)

lemma vecPlus_fields:
  "fX (vecPlus p q) = dadd (fX p) (fX q)"
  "fY (vecPlus p q) = dadd (fY p) (fY q)"
  "fZ (vecPlus p q) = dadd (fZ p) (fZ q)"
  by (simp_all add: vecPlus_def SetPxPyPzE_fields)


lemma foldl_vecPlus_fields:
  "fX (foldl vecPlus s vs) = foldl dadd (fX s) (map fX vs)"
  "fY (foldl vecPlus s vs) = foldl dadd (fY s) (map fY vs)"
  "fZ (foldl vecPlus s vs) = foldl dadd (fZ s) (map fZ vs)"
  by (induction vs arbitrary: s) (simp_all add: vecPlus_fields)

lemma reconstructSystem_fields:
  "fX (reconstructSystem vs) = foldl dadd 0 (map fX vs)"
  "fY (reconstructSystem vs) = foldl dadd 0 (map fY vs)"
  "fZ (reconstructSystem vs) = foldl dadd 0 (map fZ vs)"
  by (simp_all add: reconstructSystem_def foldl_vecPlus_fields vecZero_def)

lemma exactFold_sum:
  "exactFold acc xs \<Longrightarrow> foldl dadd acc xs = acc + sum_list xs"
  by (induction xs arbitrary: acc) (simp_all add: dadd_def)

lemma sum_list_perm:
  fixes xs ys :: "real list"
  assumes "mset xs = mset ys"
  shows "sum_list xs = sum_list ys"
proof -
  have "sum_list xs = sum_mset (mset xs)" by (simp add: sum_mset_sum_list)
  also have "\<dots> = sum_mset (mset ys)" by (simp only: assms)
  also have "\<dots> = sum_list ys" by (simp add: sum_mset_sum_list)
  finally show ?thesis .
qed

lemma exactFold_perm:
  assumes "mset xs = mset ys" "exactFold 0 (map f xs)" "exactFold 0 (map f ys)"
  shows "foldl dadd 0 (map f xs) = foldl dadd 0 (map f ys)"
proof -
  have "mset (map f xs) = mset (map f ys)" using assms(1) by simp
  then have "sum_list (map f xs) = sum_list (map f ys)" by (rule sum_list_perm)
  then show ?thesis using exactFold_sum[OF assms(2)] exactFold_sum[OF assms(3)] by simp
qed

lemma dadd_swap:
  assumes "rnd64 a = a" "rnd64 b = b"
  shows "foldl dadd 0 [a, b] = foldl dadd 0 [b, a]"
  using assms by (simp add: dadd_def add.commute)

lemma rnd64_absorb: "rnd64 (1 + 1 / 2 ^ 54) = 1"
proof -
  define x :: real where "x = 1 + 1 / 2 ^ 54"
  have x0: "x \<noteq> 0" and xpos: "0 < x" by (simp_all add: x_def)
  have "2 powr (real_of_int 0) \<le> x \<and> x < 2 powr (real_of_int 0 + 1)" by (simp add: x_def)
  then have "\<lfloor>log 2 x\<rfloor> = 0" using xpos floor_log_eq_powr_iff[of x 2 0] by simp
  then have u: "ulpExponent x = - 52" using xpos by (simp add: ulpExponent_def)
  define q :: real where "q = x / 2 powr (- 52)"
  have p: "(2 :: real) powr (- 52) = 1 / 2 ^ 52"
    by (simp add: powr_minus_divide powr_realpow [symmetric])
  have qv: "q = of_int (2 ^ 52) + 1 / 4" unfolding q_def p by (simp add: x_def)
  have "\<lfloor>q\<rfloor> = 2 ^ 52" unfolding qv by (intro floor_unique) simp_all
  moreover have "q - of_int (2 ^ 52) = 1 / 4" by (simp add: qv)
  ultimately have r: "roundHalfEven q = 2 ^ 52" by (simp add: roundHalfEven_def Let_def)
  have "rnd64 x = of_int (roundHalfEven q) * 2 powr (- 52)"
    using x0 by (simp add: rnd64_nz u q_def)
  also have "\<dots> = 1" unfolding r p by simp
  finally show ?thesis by (simp only: x_def)
qed

lemma sqrt_half_pow: "sqrt (1 / 2 ^ 108) = 1 / 2 ^ 54"
proof (rule real_sqrt_unique)
  show "((1 :: real) / 2 ^ 54)\<^sup>2 = 1 / 2 ^ 108" by (simp add: power_divide power_mult [symmetric])
  show "(0 :: real) \<le> 1 / 2 ^ 54" by simp
qed

text \<open>
  C7, as amended. The momentum components of the system are the sums of the
  components of the four-vectors, added as doubles in the order of the list. For a
  list and a permutation of it, the momentum components and the transverse momentum
  of the two systems are identical when no addition of a component is rounded in
  either ordering; for two four-vectors with double components they are identical in
  either order.
\<close>

theorem reconstructSystem_order:
  "fX (reconstructSystem vs) = foldl dadd 0 (map fX vs) \<and>
   fY (reconstructSystem vs) = foldl dadd 0 (map fY vs) \<and>
   fZ (reconstructSystem vs) = foldl dadd 0 (map fZ vs) \<and>
   (mset xs = mset ys \<and>
    exactFold 0 (map fX xs) \<and> exactFold 0 (map fY xs) \<and> exactFold 0 (map fZ xs) \<and>
    exactFold 0 (map fX ys) \<and> exactFold 0 (map fY ys) \<and> exactFold 0 (map fZ ys) \<longrightarrow>
      fX (reconstructSystem xs) = fX (reconstructSystem ys) \<and>
      fY (reconstructSystem xs) = fY (reconstructSystem ys) \<and>
      fZ (reconstructSystem xs) = fZ (reconstructSystem ys) \<and>
      Pt (reconstructSystem xs) = Pt (reconstructSystem ys)) \<and>
   (rnd64 (fX a) = fX a \<and> rnd64 (fY a) = fY a \<and> rnd64 (fZ a) = fZ a \<and>
    rnd64 (fX b) = fX b \<and> rnd64 (fY b) = fY b \<and> rnd64 (fZ b) = fZ b \<longrightarrow>
      fX (reconstructSystem [a, b]) = fX (reconstructSystem [b, a]) \<and>
      fY (reconstructSystem [a, b]) = fY (reconstructSystem [b, a]) \<and>
      fZ (reconstructSystem [a, b]) = fZ (reconstructSystem [b, a]) \<and>
      Pt (reconstructSystem [a, b]) = Pt (reconstructSystem [b, a]))"
proof (intro conjI impI)
  show "fX (reconstructSystem vs) = foldl dadd 0 (map fX vs)"
    "fY (reconstructSystem vs) = foldl dadd 0 (map fY vs)"
    "fZ (reconstructSystem vs) = foldl dadd 0 (map fZ vs)"
    by (rule reconstructSystem_fields)+
next
  assume h: "mset xs = mset ys \<and>
    exactFold 0 (map fX xs) \<and> exactFold 0 (map fY xs) \<and> exactFold 0 (map fZ xs) \<and>
    exactFold 0 (map fX ys) \<and> exactFold 0 (map fY ys) \<and> exactFold 0 (map fZ ys)"
  show x: "fX (reconstructSystem xs) = fX (reconstructSystem ys)"
    unfolding reconstructSystem_fields using h by (intro exactFold_perm) simp_all
  show y: "fY (reconstructSystem xs) = fY (reconstructSystem ys)"
    unfolding reconstructSystem_fields using h by (intro exactFold_perm) simp_all
  show "fZ (reconstructSystem xs) = fZ (reconstructSystem ys)"
    unfolding reconstructSystem_fields using h by (intro exactFold_perm) simp_all
  show "Pt (reconstructSystem xs) = Pt (reconstructSystem ys)"
    by (simp only: Pt_def x y)
next
  assume h: "rnd64 (fX a) = fX a \<and> rnd64 (fY a) = fY a \<and> rnd64 (fZ a) = fZ a \<and>
    rnd64 (fX b) = fX b \<and> rnd64 (fY b) = fY b \<and> rnd64 (fZ b) = fZ b"
  show x: "fX (reconstructSystem [a, b]) = fX (reconstructSystem [b, a])"
    using h dadd_swap[of "fX a" "fX b"] by (simp add: reconstructSystem_fields)
  show y: "fY (reconstructSystem [a, b]) = fY (reconstructSystem [b, a])"
    using h dadd_swap[of "fY a" "fY b"] by (simp add: reconstructSystem_fields)
  show "fZ (reconstructSystem [a, b]) = fZ (reconstructSystem [b, a])"
    using h dadd_swap[of "fZ a" "fZ b"] by (simp add: reconstructSystem_fields)
  show "Pt (reconstructSystem [a, b]) = Pt (reconstructSystem [b, a])"
    by (simp only: Pt_def x y)
qed

theorem reconstructSystem_order_witness:
  "mset [pion4Vec 1 0 0, pion4Vec 0 1 0, pion4Vec 0 0 1] =
     mset [pion4Vec 0 0 1, pion4Vec 1 0 0, pion4Vec 0 1 0] \<and>
   exactFold 0 (map fX [pion4Vec 1 0 0, pion4Vec 0 1 0, pion4Vec 0 0 1]) \<and>
   exactFold 0 (map fX [pion4Vec 0 0 1, pion4Vec 1 0 0, pion4Vec 0 1 0]) \<and>
   Pt (reconstructSystem [pion4Vec 1 0 0, pion4Vec 0 1 0, pion4Vec 0 0 1]) =
     Pt (reconstructSystem [pion4Vec 0 0 1, pion4Vec 1 0 0, pion4Vec 0 1 0]) \<and>
   rnd64 (fX (pion4Vec 1 2 3)) = fX (pion4Vec 1 2 3) \<and>
   Pt (reconstructSystem [pion4Vec 1 2 3, pion4Vec 4 5 6]) =
     Pt (reconstructSystem [pion4Vec 4 5 6, pion4Vec 1 2 3])"
proof -
  let ?xs = "[pion4Vec 1 0 0, pion4Vec 0 1 0, pion4Vec 0 0 1]"
  let ?ys = "[pion4Vec 0 0 1, pion4Vec 1 0 0, pion4Vec 0 1 0]"
  have i: "rnd64 1 = 1" "rnd64 2 = 2" "rnd64 3 = 3" "rnd64 4 = 4" "rnd64 5 = 5" "rnd64 6 = 6"
    using rnd64_int[of 1] rnd64_int[of 2] rnd64_int[of 3] rnd64_int[of 4] rnd64_int[of 5]
      rnd64_int[of 6] by simp_all
  have m: "mset ?xs = mset ?ys" by (simp add: add_mset_commute)
  have ex: "exactFold 0 (map fX ?xs)" "exactFold 0 (map fY ?xs)" "exactFold 0 (map fZ ?xs)"
    by (simp_all add: pion4Vec_def i rnd64_zero)
  have ey: "exactFold 0 (map fX ?ys)" "exactFold 0 (map fY ?ys)" "exactFold 0 (map fZ ?ys)"
    by (simp_all add: pion4Vec_def i rnd64_zero)
  have d: "rnd64 (fX (pion4Vec 1 2 3)) = fX (pion4Vec 1 2 3)"
    "rnd64 (fY (pion4Vec 1 2 3)) = fY (pion4Vec 1 2 3)"
    "rnd64 (fZ (pion4Vec 1 2 3)) = fZ (pion4Vec 1 2 3)"
    "rnd64 (fX (pion4Vec 4 5 6)) = fX (pion4Vec 4 5 6)"
    "rnd64 (fY (pion4Vec 4 5 6)) = fY (pion4Vec 4 5 6)"
    "rnd64 (fZ (pion4Vec 4 5 6)) = fZ (pion4Vec 4 5 6)"
    by (simp_all add: pion4Vec_def i)
  show ?thesis
    using reconstructSystem_order [of ?xs ?xs ?ys "pion4Vec 1 2 3" "pion4Vec 4 5 6"]
      m ex ey d by simp
qed

text \<open>
  The claim C7 as it was stated fails: the four-vectors with the x components 1,
  \<open>1 / 2 ^ 54\<close> and -1 (no y or z component) give the transverse momentum 0 in this order,
  since the second addition is rounded back to 1, and \<open>1 / 2 ^ 54\<close> when the second and
  the third are exchanged.
\<close>

theorem reconstructSystem_order_counterexample:
  "mset [pion4Vec 1 0 0, pion4Vec (1 / 2 ^ 54) 0 0, pion4Vec (- 1) 0 0] =
     mset [pion4Vec 1 0 0, pion4Vec (- 1) 0 0, pion4Vec (1 / 2 ^ 54) 0 0] \<and>
   Pt (reconstructSystem [pion4Vec 1 0 0, pion4Vec (1 / 2 ^ 54) 0 0, pion4Vec (- 1) 0 0]) = 0 \<and>
   Pt (reconstructSystem [pion4Vec 1 0 0, pion4Vec (- 1) 0 0, pion4Vec (1 / 2 ^ 54) 0 0])
     = 1 / 2 ^ 54 \<and>
   Pt (reconstructSystem [pion4Vec 1 0 0, pion4Vec (1 / 2 ^ 54) 0 0, pion4Vec (- 1) 0 0]) \<noteq>
   Pt (reconstructSystem [pion4Vec 1 0 0, pion4Vec (- 1) 0 0, pion4Vec (1 / 2 ^ 54) 0 0])"
proof -
  let ?e = "(1 :: real) / 2 ^ 54"
  let ?l1 = "[pion4Vec 1 0 0, pion4Vec ?e 0 0, pion4Vec (- 1) 0 0]"
  let ?l2 = "[pion4Vec 1 0 0, pion4Vec (- 1) 0 0, pion4Vec ?e 0 0]"
  have one: "rnd64 1 = 1" using rnd64_int[of 1] by simp
  have e: "rnd64 ?e = ?e" by (rule rnd64_half_pow) simp
  have ee: "rnd64 (?e * ?e) = 1 / 2 ^ 108"
  proof -
    have "?e * ?e = 1 / 2 ^ 108" by (simp add: power_add [symmetric])
    moreover have "rnd64 ((1 :: real) / 2 ^ 108) = 1 / 2 ^ 108" by (rule rnd64_half_pow) simp
    ultimately show ?thesis by (simp only:)
  qed
  have a1: "dadd 0 1 = 1" by (simp add: dadd_def one)
  have a2: "dadd 1 ?e = 1" unfolding dadd_def by (rule rnd64_absorb)
  have a3: "dadd 1 (- 1) = 0" by (simp add: dadd_def rnd64_zero)
  have a4: "dadd 0 ?e = ?e" by (simp add: dadd_def e del: power_numeral)
  have a0: "dadd 0 0 = 0" by (simp add: dadd_def rnd64_zero)
  have x1: "fX (reconstructSystem ?l1) = 0"
    by (simp only: reconstructSystem_fields list.map foldl.simps pion4Vec_def
        PxPyPzMVector.simps a1 a2 a3)
  have x2: "fX (reconstructSystem ?l2) = ?e"
    by (simp only: reconstructSystem_fields list.map foldl.simps pion4Vec_def
        PxPyPzMVector.simps a1 a3 a4)
  have y1: "fY (reconstructSystem ?l1) = 0"
    by (simp only: reconstructSystem_fields list.map foldl.simps pion4Vec_def
        PxPyPzMVector.simps a0)
  have y2: "fY (reconstructSystem ?l2) = 0"
    by (simp only: reconstructSystem_fields list.map foldl.simps pion4Vec_def
        PxPyPzMVector.simps a0)
  have m0: "dmul 0 0 = 0" by (simp add: dmul_def rnd64_zero)
  have p1: "Pt (reconstructSystem ?l1) = 0"
    by (simp only: Pt_def x1 y1 m0 a0) (simp add: dsqrt_def rnd64_zero)
  have s: "dsqrt (1 / 2 ^ 108) = ?e"
    unfolding dsqrt_def sqrt_half_pow by (rule e)
  have d: "dadd (1 / 2 ^ 108) 0 = 1 / 2 ^ 108"
  proof -
    have "rnd64 ((1 :: real) / 2 ^ 108) = 1 / 2 ^ 108" by (rule rnd64_half_pow) simp
    moreover have "(1 :: real) / 2 ^ 108 + 0 = 1 / 2 ^ 108" by (rule add_0_right)
    ultimately show ?thesis unfolding dadd_def by (simp only:)
  qed
  have p2: "Pt (reconstructSystem ?l2) = ?e"
    by (simp only: Pt_def x2 y2 m0) (simp only: dmul_def ee d s)
  have m: "mset ?l1 = mset ?l2" by (simp add: add_mset_commute)
  have ne: "(0 :: real) \<noteq> ?e" by simp
  have "Pt (reconstructSystem ?l1) \<noteq> Pt (reconstructSystem ?l2)"
    unfolding p1 p2 by (rule ne)
  then show ?thesis using m p1 p2 by blast
qed

section \<open>Decay angles\<close>

lemma atan2_bounds: "- pi < atan2 y x \<and> atan2 y x \<le> pi"
proof -
  have b: "- (pi / 2) < arctan (y / x)" "arctan (y / x) < pi / 2"
    by (rule arctan_lbound, rule arctan_ubound)
  have p: "0 < pi" by simp
  consider "0 < x" | "x < 0" "0 \<le> y" | "x < 0" "y < 0" | "x = 0" by linarith
  then show ?thesis
  proof cases
    case 1 then show ?thesis using b p by (simp add: atan2_def; linarith)
  next
    case 2
    then have "y / x \<le> 0" by (simp add: divide_nonneg_neg)
    then have "arctan (y / x) \<le> 0" by simp
    then show ?thesis using 2 b p by (simp add: atan2_def; linarith)
  next
    case 3
    then have "0 < y / x" by (simp add: divide_neg_neg)
    then have "0 < arctan (y / x)" by simp
    then show ?thesis using 3 b p by (simp add: atan2_def; linarith)
  next
    case 4 then show ?thesis using p by (simp add: atan2_def; linarith)
  qed
qed

lemma Phi_bounds: "- pi < Phi v \<and> Phi v \<le> pi"
  using atan2_bounds[of "fY v" "fX v"] by (simp add: Phi_def)

text \<open>
  The angle \<open>deltaPhi\<close> returns lies in the closed interval from \<open>-pi\<close> to \<open>pi\<close>, and
  it is the raw difference of the two azimuthal angles, or that difference with
  \<open>2 * pi\<close> added or subtracted once.
\<close>

theorem deltaPhi_closed_interval:
  "- pi \<le> deltaPhi p1 p2 \<and> deltaPhi p1 p2 \<le> pi \<and>
   (deltaPhi p1 p2 = Phi p1 - Phi p2 \<or> deltaPhi p1 p2 = Phi p1 - Phi p2 - 2 * pi \<or>
    deltaPhi p1 p2 = Phi p1 - Phi p2 + 2 * pi)"
  using Phi_bounds[of p1] Phi_bounds[of p2] by (simp add: deltaPhi_def Let_def; linarith)




text \<open>
  C6. For two oppositely charged tracks and their two four-vectors, \<open>getPhiCharge\<close> takes
  the four-vector of the positive track as \<open>pOne\<close> and the other as \<open>pTwo\<close>, and returns
  \<open>deltaPhi\<close> of their sum and their difference. The result is the one \<open>getPhiRandom\<close>
  gives for the ordering that the sign of the first track fixes; it is a function of
  the two vectors and of that sign alone, with no shuffle outcome among its arguments,
  so equal inputs give equal results.
\<close>

theorem getPhiCharge_positive_first:
  assumes "sign t0 * sign t1 < 0"
  shows "(sign t0 > 0 \<longrightarrow>
            getPhiCharge [t0, t1] [v0, v1] = Some (deltaPhi (vecPlus v0 v1) (vecMinus v0 v1))) \<and>
         (sign t1 > 0 \<longrightarrow>
            getPhiCharge [t0, t1] [v0, v1] = Some (deltaPhi (vecPlus v1 v0) (vecMinus v1 v0))) \<and>
         (sign t0 > 0 \<or> sign t1 > 0) \<and>
         getPhiCharge [t0, t1] [v0, v1] = getPhiRandom (\<not> sign t0 > 0) [v0, v1] \<and>
         (\<forall>ts vs. ts = [t0, t1] \<and> vs = [v0, v1] \<longrightarrow>
            getPhiCharge ts vs = getPhiCharge [t0, t1] [v0, v1]) \<and>
         (\<forall>u0 u1. (sign u0 > 0 \<longleftrightarrow> sign t0 > 0) \<longrightarrow>
            getPhiCharge [u0, u1] [v0, v1] = getPhiCharge [t0, t1] [v0, v1])"
proof -
  have "(sign t0 > 0 \<and> sign t1 < 0) \<or> (sign t0 < 0 \<and> sign t1 > 0)"
    using assms by (auto simp: mult_less_0_iff)
  then show ?thesis by (auto simp: Let_def)
qed

theorem getPhiCharge_positive_first_witness:
  "sign (kinTrack 1 0 0 (- 1)) * sign (kinTrack 0 1 0 1) < 0 \<and>
   getPhiCharge [kinTrack 1 0 0 (- 1), kinTrack 0 1 0 1] [pion4Vec 1 0 0, pion4Vec 0 1 0] =
     Some (deltaPhi (vecPlus (pion4Vec 0 1 0) (pion4Vec 1 0 0))
                    (vecMinus (pion4Vec 0 1 0) (pion4Vec 1 0 0)))"
proof -
  have s: "sign (kinTrack 1 0 0 (- 1)) * sign (kinTrack 0 1 0 1) < 0"
    by (simp add: kinTrack_def)
  have p: "sign (kinTrack 0 1 0 1) > 0" by (simp add: kinTrack_def)
  show ?thesis
    using getPhiCharge_positive_first [OF s, of "pion4Vec 1 0 0" "pion4Vec 0 1 0"] s p
    by simp
qed

end
